theory Spec2Isabelle
  imports Complex_Main "HOL-Library.AList"
begin

section \<open>The MAGDA DSL parser (parsers/go/parser.go)\<close>

text \<open>
  A shallow embedding of the Go parser. Modelling decisions:

  \<^item> A Go \<open>string\<close> is a \<^typ>\<open>string\<close>, one \<^typ>\<open>char\<close> per byte. A \<open>range\<close> loop over a
    string decodes UTF-8 (\<open>runes\<close>, with \<open>U+FFFD\<close> for a byte that starts no well-formed
    encoding), \<open>WriteRune\<close> encodes (\<open>encodeRune\<close>), and \<open>strings.TrimSpace\<close> trims Unicode
    white space as the library does.
  \<^item> Go's \<open>int\<close> is taken to be 64 bits wide. It is modelled by \<^typ>\<open>int\<close>, and every
    addition or subtraction that the source performs on a value read from the input
    is wrapped (\<open>wrap64\<close>), as Go's signed arithmetic wraps around silently.
  \<^item> \<open>interface{}\<close> is the datatype \<open>iface\<close>; a \<open>map[string]T\<close> is an association list
    read with \<^const>\<open>map_of\<close> and written with \<^const>\<open>AList.update\<close>, \<open>nil\<close> and the empty
    slice are both \<open>[]\<close>.
  \<^item> \<open>float64\<close> is modelled by the value it denotes; \<open>strconv.ParseFloat\<close> belongs to
    the Go library and is a parameter \<open>pf\<close> of every function that calls it.
  \<^item> A run-time panic is the outcome \<open>Panic\<close>; a returned \<open>error\<close> is a value.
\<close>

subsection \<open>Values\<close>

datatype float64 = Finite rat | PosInf | NegInf | NaN

datatype iface =
    INil
  | IBool bool
  | IInt int
  | IFloat float64
  | IStr string
  | ISlice "iface list"
  | IMap "(string \<times> iface) list"
  | IOther

type_synonym gomap = "(string \<times> iface) list"

type_synonym action = "(string \<times> iface) list"

type_synonym parse_float = "string \<Rightarrow> float64 option"

datatype 'a outcome = Return 'a | Panic

text \<open>The operation a builder works for, and the errors the source creates with
  \<open>fmt.Errorf\<close>. \<open>FailedToParse\<close> is the wrapping \<open>"failed to parse ... call: %w"\<close>.\<close>

datatype opkind = OpTrack | OpClip | OpMidi | OpFX | OpVolume | OpPan | OpMute | OpSolo | OpName

datatype error =
    EmptyDSLCode                 \<comment> \<open>empty DSL code\<close>
  | NoSelectedTrackFound         \<comment> \<open>no selected track found in state\<close>
  | NoActionsFound               \<comment> \<open>no actions found in DSL code\<close>
  | NoTrackContext opkind        \<comment> \<open>no track context for ... call\<close>
  | MustSpecify opkind           \<comment> \<open>... call must specify ...\<close>
  | FailedToParse opkind error   \<comment> \<open>failed to parse ... call: ...\<close>

record Parser =
  trackCounter :: int
  state :: "gomap option"

definition NewParser :: Parser where
  "NewParser = \<lparr>trackCounter = 0, state = None\<rparr>"

definition SetState :: "Parser \<Rightarrow> gomap option \<Rightarrow> Parser" where
  "SetState p st = p\<lparr>state := st\<rparr>"

subsection \<open>Library functions of Go\<close>

definition wrap64 :: "int \<Rightarrow> int" where
  "wrap64 x = (x + 2 ^ 63) mod 2 ^ 64 - 2 ^ 63"

text \<open>
  UTF-8, after \<open>unicode/utf8\<close>: \<open>DecodeRune\<close> is \<open>DecodeRuneInString\<close> and returns the rune
  and its width, \<open>(RuneError, 1)\<close> for an ill-formed encoding; \<open>DecodeLastRune\<close> is
  \<open>DecodeLastRuneInString\<close>, with its backward scan for the start byte (\<open>scanBack\<close>);
  \<open>encodeRune\<close> is \<open>AppendRune\<close>. \<open>runes\<close> are the values that \<open>for _, char := range s\<close>
  yields. \<open>IsSpace\<close> is \<open>unicode.IsSpace\<close>. \<open>TrimSpace\<close> follows \<open>strings.TrimSpace\<close>: an ASCII
  fast path from both ends (\<open>asciiSpace\<close>), falling back to \<open>TrimFunc\<close> or \<open>TrimRightFunc\<close>
  at the first byte that is not ASCII. \<open>TrimLeftFunc\<close>, \<open>TrimRightFunc\<close>, \<open>TrimFunc\<close> and
  \<open>lastIndexFunc\<close> are the functions of package \<open>strings\<close> at the predicate
  \<open>unicode.IsSpace\<close>, the only one they are called with here; \<open>trimStop\<close> is the second
  loop of \<open>strings.TrimSpace\<close>.
\<close>

type_synonym rune = nat

definition RuneError :: rune where
  "RuneError = 0xFFFD"

definition rune :: "char \<Rightarrow> rune" where
  "rune c = of_char c"

definition DecodeRune :: "string \<Rightarrow> rune \<times> nat" where
  "DecodeRune s =
     (if s = [] then (RuneError, 0)
      else
       (let s0 = (of_char (s ! 0) :: nat)
        in if s0 < 0x80 then (s0, 1)
           else if s0 < 0xC2 \<or> 0xF4 < s0 then (RuneError, 1)
           else
            (let sz = (if s0 < 0xE0 then 2 else if s0 < 0xF0 then 3 else 4);
                 lo = (if s0 = 0xE0 then 0xA0 else if s0 = 0xF0 then 0x90 else 0x80);
                 hi = (if s0 = 0xED then 0x9F else if s0 = 0xF4 then 0x8F else 0xBF)
             in if length s < sz then (RuneError, 1)
                else
                 (let s1 = (of_char (s ! 1) :: nat)
                  in if s1 < lo \<or> hi < s1 then (RuneError, 1)
                     else if sz \<le> 2 then ((s0 mod 0x20) * 0x40 + s1 mod 0x40, 2)
                     else
                      (let s2 = (of_char (s ! 2) :: nat)
                       in if s2 < 0x80 \<or> 0xBF < s2 then (RuneError, 1)
                          else if sz \<le> 3 then
                            ((s0 mod 0x10) * 0x1000 + (s1 mod 0x40) * 0x40 + s2 mod 0x40, 3)
                          else
                           (let s3 = (of_char (s ! 3) :: nat)
                            in if s3 < 0x80 \<or> 0xBF < s3 then (RuneError, 1)
                               else ((s0 mod 8) * 0x40000 + (s1 mod 0x40) * 0x1000
                                       + (s2 mod 0x40) * 0x40 + s3 mod 0x40, 4)))))))"

definition RuneStart :: "char \<Rightarrow> bool" where
  "RuneStart b = ((of_char b :: nat) < 0x80 \<or> 0xC0 \<le> (of_char b :: nat))"

function scanBack :: "string \<Rightarrow> int \<Rightarrow> int \<Rightarrow> int" where
  "scanBack s start low =
     (if low \<le> start then
        (if RuneStart (s ! nat start) then start else scanBack s (start - 1) low)
      else start)"
  by pat_completeness auto
termination
  by (relation "measure (\<lambda>(s, start, low). nat (start - low + 1))") auto

declare scanBack.simps [simp del]

definition DecodeLastRune :: "string \<Rightarrow> rune \<times> nat" where
  "DecodeLastRune s =
     (let end = int (length s)
      in if end = 0 then (RuneError, 0)
         else
          (let r = (of_char (s ! nat (end - 1)) :: nat)
           in if r < 0x80 then (r, 1)
              else
               (let low = (if end - 4 < 0 then 0 else end - 4);
                    start0 = scanBack s (end - 2) low;
                    start = (if start0 < 0 then 0 else start0)
                in case DecodeRune (drop (nat start) s) of
                     (r', wid) \<Rightarrow>
                       if start + int wid = end then (r', wid) else (RuneError, 1))))"

definition IsSpace :: "rune \<Rightarrow> bool" where
  "IsSpace r =
     ((0x09 \<le> r \<and> r \<le> 0x0D) \<or> r = 0x20 \<or> r = 0x85 \<or> r = 0xA0 \<or> r = 0x1680
      \<or> (0x2000 \<le> r \<and> r \<le> 0x200A) \<or> r = 0x2028 \<or> r = 0x2029 \<or> r = 0x202F
      \<or> r = 0x205F \<or> r = 0x3000)"

definition asciiSpace :: "char \<Rightarrow> bool" where
  "asciiSpace c = (c = CHR 0x09 \<or> c = CHR 0x0A \<or> c = CHR 0x0B \<or> c = CHR 0x0C
     \<or> c = CHR 0x0D \<or> c = CHR 0x20)"

function TrimLeftFunc :: "string \<Rightarrow> string" where
  "TrimLeftFunc s =
     (if s = [] then []
      else (case DecodeRune s of
              (r, wid) \<Rightarrow> if IsSpace r then TrimLeftFunc (drop wid s) else s))"
  by pat_completeness auto
termination
proof (relation "measure length")
  show "wf (measure length)" by simp
next
  fix s :: string and r wid
  assume "s \<noteq> []" and "(r, wid) = DecodeRune s" and "IsSpace r"
  then have "0 < wid"
    by (auto simp: DecodeRune_def Let_def split: if_splits)
  with \<open>s \<noteq> []\<close> show "(drop wid s, s) \<in> measure length" by simp
qed

declare TrimLeftFunc.simps [simp del]

function lastIndexFunc :: "string \<Rightarrow> int" where
  "lastIndexFunc s =
     (if s = [] then -1
      else (case DecodeLastRune s of
              (r, wid) \<Rightarrow>
                if IsSpace r then lastIndexFunc (take (length s - wid) s)
                else int (length s) - int wid))"
  by pat_completeness auto
termination
proof (relation "measure length")
  show "wf (measure length)" by simp
next
  fix s :: string and r wid
  assume ne: "s \<noteq> []" and d: "(r, wid) = DecodeLastRune s" and "IsSpace r"
  have sb: "scanBack t a l \<le> a" for t a l
  proof (induction t a l rule: scanBack.induct)
    case (1 t start low)
    then show ?case by (subst scanBack.simps) auto
  qed
  have "0 < wid"
  proof (rule ccontr)
    assume "\<not> 0 < wid"
    then have w: "wid = 0" by simp
    from sb [of s "int (length s) - 2" 0]
      sb [of s "int (length s) - 2" "int (length s) - 4"] ne d w show False
      by (auto simp: DecodeLastRune_def Let_def split: if_splits prod.splits)
  qed
  with ne show "(take (length s - wid) s, s) \<in> measure length" by simp
qed

declare lastIndexFunc.simps [simp del]

definition TrimRightFunc :: "string \<Rightarrow> string" where
  "TrimRightFunc s =
     (let i = lastIndexFunc s
      in if 0 \<le> i \<and> 0x80 \<le> (of_char (s ! nat i) :: nat)
         then take (nat i + snd (DecodeRune (drop (nat i) s))) s
         else take (nat (i + 1)) s)"

definition TrimFunc :: "string \<Rightarrow> string" where
  "TrimFunc s = TrimRightFunc (TrimLeftFunc s)"

function trimStop :: "string \<Rightarrow> string" where
  "trimStop s =
     (if s = [] then []
      else if 0x80 \<le> (of_char (last s) :: nat) then TrimRightFunc s
      else if asciiSpace (last s) then trimStop (butlast s)
      else s)"
  by pat_completeness auto
termination
  by (relation "measure length") auto

declare trimStop.simps [simp del]

fun TrimSpace :: "string \<Rightarrow> string" where
  "TrimSpace [] = []"
| "TrimSpace (c # cs) =
     (if 0x80 \<le> (of_char c :: nat) then TrimFunc (c # cs)
      else if asciiSpace c then TrimSpace cs
      else trimStop (c # cs))"

function runes :: "string \<Rightarrow> rune list" where
  "runes s =
     (if s = [] then []
      else (case DecodeRune s of (r, wid) \<Rightarrow> r # runes (drop wid s)))"
  by pat_completeness auto
termination
proof (relation "measure length")
  show "wf (measure length)" by simp
next
  fix s :: string and r wid
  assume "s \<noteq> []" and "(r, wid) = DecodeRune s"
  then have "0 < wid"
    by (auto simp: DecodeRune_def Let_def split: if_splits)
  with \<open>s \<noteq> []\<close> show "(drop wid s, s) \<in> measure length" by simp
qed

declare runes.simps [simp del]

definition encodeRune :: "rune \<Rightarrow> string" where
  "encodeRune r =
     (if r \<le> 0x7F then [char_of r]
      else if r \<le> 0x7FF then [char_of (0xC0 + r div 0x40), char_of (0x80 + r mod 0x40)]
      else if r < 0xD800 \<or> (0xDFFF < r \<and> r \<le> 0xFFFF) then
        [char_of (0xE0 + r div 0x1000), char_of (0x80 + (r div 0x40) mod 0x40),
         char_of (0x80 + r mod 0x40)]
      else if 0xFFFF < r \<and> r \<le> 0x10FFFF then
        [char_of (0xF0 + r div 0x40000), char_of (0x80 + (r div 0x1000) mod 0x40),
         char_of (0x80 + (r div 0x40) mod 0x40), char_of (0x80 + r mod 0x40)]
      else [CHR 0xEF, CHR 0xBF, CHR 0xBD])"

definition HasPrefix :: "string \<Rightarrow> string \<Rightarrow> bool" where
  "HasPrefix s pre = (take (length pre) s = pre)"

text \<open>\<open>strings.Index\<close> and \<open>strings.LastIndex\<close> for a one-byte pattern: \<open>-1\<close> when absent.\<close>

fun Index :: "string \<Rightarrow> char \<Rightarrow> int" where
  "Index [] c = -1"
| "Index (x # xs) c =
     (if x = c then 0 else (let i = Index xs c in if i < 0 then -1 else i + 1))"

definition LastIndex :: "string \<Rightarrow> char \<Rightarrow> int" where
  "LastIndex s c = (let i = Index (rev s) c in if i < 0 then -1 else int (length s) - 1 - i)"

text \<open>The slice expression \<open>s[lo:hi]\<close>, used by the source with \<open>0 \<le> lo \<le> hi \<le> len(s)\<close> only.\<close>

definition slice :: "string \<Rightarrow> int \<Rightarrow> int \<Rightarrow> string" where
  "slice s lo hi = take (nat (hi - lo)) (drop (nat lo) s)"

definition isDigit :: "char \<Rightarrow> bool" where
  "isDigit c = (c \<in> set ''0123456789'')"

definition digitsVal :: "string \<Rightarrow> int" where
  "digitsVal ds = foldl (\<lambda>a c. 10 * a + (of_char c - 48)) 0 ds"

text \<open>\<open>strconv.Atoi\<close>: an optional sign and one or more decimal digits, in the range of
  a 64-bit \<open>int\<close>; \<open>None\<close> is the returned error.\<close>

definition Atoi :: "string \<Rightarrow> int option" where
  "Atoi s =
     (let neg = (s \<noteq> [] \<and> hd s = CHR ''-'');
          ds = (if s \<noteq> [] \<and> (hd s = CHR ''-'' \<or> hd s = CHR ''+'') then tl s else s)
      in if ds = [] then None
         else if list_all isDigit ds then
           (let v = (if neg then - digitsVal ds else digitsVal ds)
            in if v < - (2 ^ 63) \<or> 2 ^ 63 - 1 < v then None else Some v)
         else None)"

subsection \<open>splitMethodChains\<close>

text \<open>
  The loop of \<open>splitMethodChains\<close> over the runes of the input, with its five variables. After
  closing a part the source runs \<open>for i+1 < len(dslCode) && ... { i++ }\<close>; in Go the
  variable \<open>i\<close> of a \<open>range\<close> loop is assigned afresh at each iteration, so that inner
  loop skips nothing and the separators start the next part.
\<close>

fun splitLoop :: "rune list \<Rightarrow> string list \<Rightarrow> string \<Rightarrow> int \<Rightarrow> bool \<Rightarrow> bool \<Rightarrow> string list" where
  "splitLoop [] parts current depth inString escape =
     (if current \<noteq> [] then parts @ [current] else parts)"
| "splitLoop (c # cs) parts current depth inString escape =
     (if escape then splitLoop cs parts (current @ encodeRune c) depth inString False
      else if c = rune (CHR 0x5C) then splitLoop cs parts (current @ encodeRune c) depth inString True
      else if c = rune (CHR 0x22) then
        splitLoop cs parts (current @ encodeRune c) depth (\<not> inString) False
      else if c = rune (CHR ''('') then
        splitLoop cs parts (current @ encodeRune c) (if \<not> inString then depth + 1 else depth)
          inString False
      else if c = rune (CHR '')'') then
        (if \<not> inString then
           (if depth - 1 = 0 then splitLoop cs (parts @ [current @ encodeRune c]) [] 0 inString False
            else splitLoop cs parts (current @ encodeRune c) (depth - 1) inString False)
         else splitLoop cs parts (current @ encodeRune c) depth inString False)
      else splitLoop cs parts (current @ encodeRune c) depth inString False)"

definition splitMethodChains :: "string \<Rightarrow> string list" where
  "splitMethodChains dslCode = splitLoop (runes dslCode) [] [] 0 False False"

subsection \<open>extractParams\<close>

record ep_state =
  params :: "(string \<times> string) list"
  currentKey :: string
  currentValue :: string
  inString :: bool
  escape :: bool
  expectingValue :: bool
  currentParamKey :: string

definition extractStep :: "rune \<Rightarrow> ep_state \<Rightarrow> ep_state" where
  "extractStep c s =
     (if escape s then
        (if inString s then s\<lparr>currentValue := currentValue s @ encodeRune c, escape := False\<rparr>
         else s\<lparr>escape := False\<rparr>)
      else if c = rune (CHR 0x5C) then
        (if inString s then s\<lparr>escape := True, currentValue := currentValue s @ encodeRune c\<rparr>
         else s\<lparr>escape := True\<rparr>)
      else if c = rune (CHR 0x22) then
        (if inString s then
           (if currentParamKey s \<noteq> [] then
              s\<lparr>inString := False,
                params := AList.update (currentParamKey s) (currentValue s) (params s),
                currentParamKey := [], currentValue := [], expectingValue := False\<rparr>
            else s\<lparr>inString := False\<rparr>)
         else s\<lparr>inString := True\<rparr>)
      else if c = rune (CHR ''='') then
        (if \<not> inString s then
           s\<lparr>currentParamKey := TrimSpace (currentKey s), currentKey := [],
             expectingValue := True\<rparr>
         else s\<lparr>currentValue := currentValue s @ encodeRune c\<rparr>)
      else if c = rune (CHR '','') then
        (if \<not> inString s then
           (if currentParamKey s \<noteq> [] \<and> currentValue s \<noteq> [] then
              s\<lparr>params := AList.update (currentParamKey s) (TrimSpace (currentValue s)) (params s),
                currentParamKey := [], currentValue := [], currentKey := [],
                expectingValue := False\<rparr>
            else s)
         else s\<lparr>currentValue := currentValue s @ encodeRune c\<rparr>)
      else if expectingValue s then s\<lparr>currentValue := currentValue s @ encodeRune c\<rparr>
      else s\<lparr>currentKey := currentKey s @ encodeRune c\<rparr>)"

definition extractInit :: ep_state where
  "extractInit = \<lparr>params = [], currentKey = [], currentValue = [], inString = False,
     escape = False, expectingValue = False, currentParamKey = []\<rparr>"

definition extractParams :: "string \<Rightarrow> (string \<times> string) list" where
  "extractParams call =
     (let start = Index call CHR ''(''; end = LastIndex call CHR '')''
      in if start < 0 \<or> end < 0 \<or> end \<le> start then []
         else (let content = TrimSpace (slice call (start + 1) end)
               in if content = [] then []
                  else (let s = fold extractStep (runes content) extractInit
                        in if currentParamKey s \<noteq> [] then
                             (let valueStr = TrimSpace (currentValue s)
                              in if valueStr \<noteq> [] then
                                   AList.update (currentParamKey s) valueStr (params s)
                                 else params s)
                           else params s)))"

subsection \<open>getSelectedTrackIndex\<close>

text \<open>The two type assertions that lead to the track list: the snapshot is wrapped as
  \<open>{"state": {"tracks": [...]}}\<close>. \<open>None\<close> where the source returns \<open>-1\<close> before its loop.\<close>

definition snapshotTracks :: "Parser \<Rightarrow> iface list option" where
  "snapshotTracks p =
     (case state p of
        None \<Rightarrow> None
      | Some st \<Rightarrow>
          (case map_of st ''state'' of
             Some (IMap stateMap) \<Rightarrow>
               (case map_of stateMap ''tracks'' of
                  Some (ISlice tracks) \<Rightarrow> Some tracks
                | _ \<Rightarrow> None)
           | _ \<Rightarrow> None))"

text \<open>The loop body's test: the entry is a map whose \<open>selected\<close> is the boolean \<open>true\<close>.\<close>

definition flagged :: "iface \<Rightarrow> bool" where
  "flagged track =
     (case track of
        IMap trackMap \<Rightarrow> (case map_of trackMap ''selected'' of Some (IBool b) \<Rightarrow> b | _ \<Rightarrow> False)
      | _ \<Rightarrow> False)"

fun firstSelected :: "iface list \<Rightarrow> int \<Rightarrow> int" where
  "firstSelected [] i = -1"
| "firstSelected (track # tracks) i = (if flagged track then i else firstSelected tracks (i + 1))"

definition getSelectedTrackIndex :: "Parser \<Rightarrow> int" where
  "getSelectedTrackIndex p =
     (case snapshotTracks p of None \<Rightarrow> -1 | Some tracks \<Rightarrow> firstSelected tracks 0)"

subsection \<open>The builders\<close>

text \<open>\<open>parseTrackCall\<close> returns the action, the index and a \<open>nil\<close> error, and changes the
  counter of the parser. Its last line asserts \<open>action["index"].(int)\<close>, which panics
  when the key is absent.\<close>

definition parseTrackCall :: "Parser \<Rightarrow> string \<Rightarrow> (action \<times> int \<times> error option) outcome \<times> Parser" where
  "parseTrackCall p call =
     (let action0 = [(''action'', IStr ''create_track'')];
          params = extractParams call;
          action1 = (case map_of params ''instrument'' of
                       Some instrument \<Rightarrow> AList.update ''instrument'' (IStr instrument) action0
                     | None \<Rightarrow> action0);
          action2 = (case map_of params ''name'' of
                       Some name \<Rightarrow> AList.update ''name'' (IStr name) action1
                     | None \<Rightarrow> action1);
          (action3, p') =
            (case map_of params ''index'' of
               Some indexStr \<Rightarrow>
                 (case Atoi indexStr of
                    Some index \<Rightarrow> (AList.update ''index'' (IInt index) action2,
                                   p\<lparr>trackCounter := wrap64 (index + 1)\<rparr>)
                  | None \<Rightarrow> (action2, p))
             | None \<Rightarrow> (AList.update ''index'' (IInt (trackCounter p)) action2,
                         p\<lparr>trackCounter := wrap64 (trackCounter p + 1)\<rparr>))
      in (case map_of action3 ''index'' of
            Some (IInt i) \<Rightarrow> (Return (action3, i, None), p')
          | _ \<Rightarrow> (Panic, p')))"

definition parseClipCall :: "parse_float \<Rightarrow> Parser \<Rightarrow> string \<Rightarrow> int \<Rightarrow> error + action" where
  "parseClipCall pf p call trackIndex0 =
     (let trackIndex = (if trackIndex0 < 0 then getSelectedTrackIndex p else trackIndex0)
      in if trackIndex < 0 then Inl (NoTrackContext OpClip)
         else
          (let params = extractParams call;
               action0 = [(''action'', IStr ''create_clip''), (''track'', IInt trackIndex)]
           in case map_of params ''bar'' of
                Some bar \<Rightarrow>
                  (let action1 = AList.update ''action'' (IStr ''create_clip_at_bar'') action0;
                       action2 = (case Atoi bar of
                                    Some barInt \<Rightarrow> AList.update ''bar'' (IInt barInt) action1
                                  | None \<Rightarrow> action1)
                   in case map_of params ''length_bars'' of
                        Some lengthBars \<Rightarrow>
                          (case Atoi lengthBars of
                             Some lengthInt \<Rightarrow> Inr (AList.update ''length_bars'' (IInt lengthInt) action2)
                           | None \<Rightarrow> Inr action2)
                      | None \<Rightarrow> Inr (AList.update ''length_bars'' (IInt 4) action2))
              | None \<Rightarrow>
                  (case map_of params ''start'' of
                     Some start \<Rightarrow>
                       (let action1 = (case pf start of
                                         Some startFloat \<Rightarrow> AList.update ''position'' (IFloat startFloat) action0
                                       | None \<Rightarrow> action0)
                        in case map_of params ''length'' of
                             Some len \<Rightarrow>
                               (case pf len of
                                  Some lengthFloat \<Rightarrow> Inr (AList.update ''length'' (IFloat lengthFloat) action1)
                                | None \<Rightarrow> Inr action1)
                           | None \<Rightarrow> Inr (AList.update ''length'' (IFloat (Finite 4)) action1))
                   | None \<Rightarrow>
                       (case map_of params ''position'' of
                          Some position \<Rightarrow>
                            (let action1 = (case pf position of
                                              Some posFloat \<Rightarrow> AList.update ''position'' (IFloat posFloat) action0
                                            | None \<Rightarrow> action0)
                             in case map_of params ''length'' of
                                  Some len \<Rightarrow>
                                    (case pf len of
                                       Some lengthFloat \<Rightarrow> Inr (AList.update ''length'' (IFloat lengthFloat) action1)
                                     | None \<Rightarrow> Inr action1)
                                | None \<Rightarrow> Inr (AList.update ''length'' (IFloat (Finite 4)) action1))
                        | None \<Rightarrow> Inl (MustSpecify OpClip)))))"

text \<open>\<open>parseMidiCall\<close> ignores the text of the call (its parameter is \<open>_\<close>) and returns a
  placeholder with an empty \<open>notes\<close> slice.\<close>

definition parseMidiCall :: "string \<Rightarrow> int \<Rightarrow> error + action" where
  "parseMidiCall call trackIndex =
     (if trackIndex < 0 then Inl (NoTrackContext OpMidi)
      else Inr [(''action'', IStr ''add_midi''), (''track'', IInt trackIndex),
                (''notes'', ISlice [])])"

definition parseFXCall :: "string \<Rightarrow> int \<Rightarrow> error + action" where
  "parseFXCall call trackIndex =
     (if trackIndex < 0 then Inl (NoTrackContext OpFX)
      else
       (let params = extractParams call;
            action0 = [(''action'', IStr ''add_track_fx''), (''track'', IInt trackIndex)]
        in case map_of params ''fxname'' of
             Some fxname \<Rightarrow> Inr (AList.update ''fxname'' (IStr fxname) action0)
           | None \<Rightarrow>
               (case map_of params ''instrument'' of
                  Some instrument \<Rightarrow>
                    Inr (AList.update ''fxname'' (IStr instrument)
                          (AList.update ''action'' (IStr ''add_instrument'') action0))
                | None \<Rightarrow> Inl (MustSpecify OpFX))))"

definition parseVolumeCall :: "parse_float \<Rightarrow> string \<Rightarrow> int \<Rightarrow> error + action" where
  "parseVolumeCall pf call trackIndex =
     (if trackIndex < 0 then Inl (NoTrackContext OpVolume)
      else
       (let params = extractParams call;
            action0 = [(''action'', IStr ''set_track_volume''), (''track'', IInt trackIndex)]
        in case map_of params ''volume_db'' of
             Some volume \<Rightarrow>
               (case pf volume of
                  Some volFloat \<Rightarrow> Inr (AList.update ''volume_db'' (IFloat volFloat) action0)
                | None \<Rightarrow> Inr action0)
           | None \<Rightarrow> Inl (MustSpecify OpVolume)))"

definition parsePanCall :: "parse_float \<Rightarrow> string \<Rightarrow> int \<Rightarrow> error + action" where
  "parsePanCall pf call trackIndex =
     (if trackIndex < 0 then Inl (NoTrackContext OpPan)
      else
       (let params = extractParams call;
            action0 = [(''action'', IStr ''set_track_pan''), (''track'', IInt trackIndex)]
        in case map_of params ''pan'' of
             Some pan \<Rightarrow>
               (case pf pan of
                  Some panFloat \<Rightarrow> Inr (AList.update ''pan'' (IFloat panFloat) action0)
                | None \<Rightarrow> Inr action0)
           | None \<Rightarrow> Inl (MustSpecify OpPan)))"

definition parseMuteCall :: "string \<Rightarrow> int \<Rightarrow> error + action" where
  "parseMuteCall call trackIndex =
     (if trackIndex < 0 then Inl (NoTrackContext OpMute)
      else
       (let params = extractParams call;
            action0 = [(''action'', IStr ''set_track_mute''), (''track'', IInt trackIndex)]
        in case map_of params ''mute'' of
             Some mute \<Rightarrow> Inr (AList.update ''mute'' (IBool (mute = ''true'')) action0)
           | None \<Rightarrow> Inl (MustSpecify OpMute)))"

definition parseSoloCall :: "string \<Rightarrow> int \<Rightarrow> error + action" where
  "parseSoloCall call trackIndex =
     (if trackIndex < 0 then Inl (NoTrackContext OpSolo)
      else
       (let params = extractParams call;
            action0 = [(''action'', IStr ''set_track_solo''), (''track'', IInt trackIndex)]
        in case map_of params ''solo'' of
             Some solo \<Rightarrow> Inr (AList.update ''solo'' (IBool (solo = ''true'')) action0)
           | None \<Rightarrow> Inl (MustSpecify OpSolo)))"

definition parseNameCall :: "string \<Rightarrow> int \<Rightarrow> error + action" where
  "parseNameCall call trackIndex =
     (if trackIndex < 0 then Inl (NoTrackContext OpName)
      else
       (let params = extractParams call;
            action0 = [(''action'', IStr ''set_track_name''), (''track'', IInt trackIndex)]
        in case map_of params ''name'' of
             Some name \<Rightarrow> Inr (AList.update ''name'' (IStr name) action0)
           | None \<Rightarrow> Inl (MustSpecify OpName)))"

subsection \<open>ParseDSL\<close>

text \<open>The chain of \<open>strings.HasPrefix\<close> tests that dispatches a part, in the order of
  the source; \<open>None\<close> when no branch of the chain is taken.\<close>

definition keyword :: "string \<Rightarrow> opkind option" where
  "keyword part =
     (if HasPrefix part ''track('' then Some OpTrack
      else if HasPrefix part ''.newClip('' then Some OpClip
      else if HasPrefix part ''.addMidi('' then Some OpMidi
      else if HasPrefix part ''.addFX('' \<or> HasPrefix part ''.addInstrument('' then Some OpFX
      else if HasPrefix part ''.setVolume('' then Some OpVolume
      else if HasPrefix part ''.setPan('' then Some OpPan
      else if HasPrefix part ''.setMute('' then Some OpMute
      else if HasPrefix part ''.setSolo('' then Some OpSolo
      else if HasPrefix part ''.setName('' then Some OpName
      else None)"

text \<open>The first block of the \<open>track(\<close> branch (lines 64 to 100): a reference sets the
  current track and continues, an unresolved selection returns an error, anything else
  falls through to the creation call.\<close>

datatype reference = RefTo int | RefFailed error | Creation

definition trackReference :: "Parser \<Rightarrow> string \<Rightarrow> reference" where
  "trackReference p part =
     (let params = extractParams part
      in case map_of params ''id'' of
           Some idStr \<Rightarrow>
             (case Atoi idStr of
                Some trackNum \<Rightarrow> RefTo (wrap64 (trackNum - 1))
              | None \<Rightarrow> Creation)
         | None \<Rightarrow>
             (case map_of params ''selected'' of
                Some selectedStr \<Rightarrow>
                  (if selectedStr = ''true'' \<or> selectedStr = ''True'' then
                     (let selectedIndex = getSelectedTrackIndex p
                      in if 0 \<le> selectedIndex then RefTo selectedIndex
                         else RefFailed NoSelectedTrackFound)
                   else Creation)
              | None \<Rightarrow>
                  (if params = [] then
                     (let start = Index part CHR ''(''; end = LastIndex part CHR '')''
                      in if 0 \<le> start \<and> start < end then
                           (case Atoi (TrimSpace (slice part (start + 1) end)) of
                              Some trackNum \<Rightarrow> RefTo (wrap64 (trackNum - 1))
                            | None \<Rightarrow> Creation)
                         else Creation)
                   else Creation)))"

text \<open>One iteration of the loop over the parts, for a trimmed and non-empty part:
  \<open>Next\<close> goes on with the actions, the current track index and the parser, \<open>Exit\<close> is a
  \<open>return\<close> of \<open>ParseDSL\<close> (or a panic).\<close>

datatype flow =
    Next "action list" int Parser
  | Exit "(action list \<times> error option) outcome" Parser

definition chained :: "opkind \<Rightarrow> error + action \<Rightarrow> action list \<Rightarrow> int \<Rightarrow> Parser \<Rightarrow> flow" where
  "chained op r actions currentTrackIndex p =
     (case r of
        Inl err \<Rightarrow> Exit (Return ([], Some (FailedToParse op err))) p
      | Inr a \<Rightarrow> Next (actions @ [a]) currentTrackIndex p)"

definition segment :: "parse_float \<Rightarrow> string \<Rightarrow> action list \<Rightarrow> int \<Rightarrow> Parser \<Rightarrow> flow" where
  "segment pf part actions currentTrackIndex p =
     (case keyword part of
        Some OpTrack \<Rightarrow>
          (case trackReference p part of
             RefTo i \<Rightarrow> Next actions i p
           | RefFailed err \<Rightarrow> Exit (Return ([], Some err)) p
           | Creation \<Rightarrow>
               (case parseTrackCall p part of
                  (Panic, p') \<Rightarrow> Exit Panic p'
                | (Return (trackAction, trackIndex, Some err), p') \<Rightarrow>
                    Exit (Return ([], Some (FailedToParse OpTrack err))) p'
                | (Return (trackAction, trackIndex, None), p') \<Rightarrow>
                    Next (actions @ [trackAction]) trackIndex p'))
      | Some OpClip \<Rightarrow>
          (let trackIndex = (if currentTrackIndex < 0 then getSelectedTrackIndex p
                             else currentTrackIndex)
           in chained OpClip (parseClipCall pf p part trackIndex) actions currentTrackIndex p)
      | Some OpMidi \<Rightarrow> chained OpMidi (parseMidiCall part currentTrackIndex) actions currentTrackIndex p
      | Some OpFX \<Rightarrow> chained OpFX (parseFXCall part currentTrackIndex) actions currentTrackIndex p
      | Some OpVolume \<Rightarrow>
          chained OpVolume (parseVolumeCall pf part currentTrackIndex) actions currentTrackIndex p
      | Some OpPan \<Rightarrow> chained OpPan (parsePanCall pf part currentTrackIndex) actions currentTrackIndex p
      | Some OpMute \<Rightarrow> chained OpMute (parseMuteCall part currentTrackIndex) actions currentTrackIndex p
      | Some OpSolo \<Rightarrow> chained OpSolo (parseSoloCall part currentTrackIndex) actions currentTrackIndex p
      | Some OpName \<Rightarrow> chained OpName (parseNameCall part currentTrackIndex) actions currentTrackIndex p
      | None \<Rightarrow> Next actions currentTrackIndex p)"

text \<open>The loop and what follows it. The result is what \<open>ParseDSL\<close> returns, the pair of the
  actions and the error, together with the parser as the call leaves it.\<close>

fun parseLoop :: "parse_float \<Rightarrow> string list \<Rightarrow> action list \<Rightarrow> int \<Rightarrow> Parser
    \<Rightarrow> (action list \<times> error option) outcome \<times> Parser" where
  "parseLoop pf [] actions currentTrackIndex p =
     (if actions = [] then (Return ([], Some NoActionsFound), p)
      else (Return (actions, None), p))"
| "parseLoop pf (part0 # parts) actions currentTrackIndex p =
     (let part = TrimSpace part0
      in if part = [] then parseLoop pf parts actions currentTrackIndex p
         else (case segment pf part actions currentTrackIndex p of
                 Next actions' currentTrackIndex' p' \<Rightarrow> parseLoop pf parts actions' currentTrackIndex' p'
               | Exit r p' \<Rightarrow> (r, p')))"

definition ParseDSL :: "parse_float \<Rightarrow> Parser \<Rightarrow> string
    \<Rightarrow> (action list \<times> error option) outcome \<times> Parser" where
  "ParseDSL pf p dslCode0 =
     (let dslCode = TrimSpace dslCode0
      in if dslCode = [] then (Return ([], Some EmptyDSLCode), p)
         else parseLoop pf (splitMethodChains dslCode) [] (-1) p)"

subsection \<open>Two parsers and one snapshot\<close>

text \<open>
  Two parsers are made with \<open>NewParser\<close> and given the same snapshot with \<open>SetState\<close>,
  and the same input is parsed on the first and then on the second. A Go map is a
  reference: both parsers hold the one snapshot object, and the second parse reads it as
  the first parse has left it, which in the model is the \<open>state\<close> of the first parser
  after its run.
\<close>

definition twoParsers :: "parse_float \<Rightarrow> gomap option \<Rightarrow> string
    \<Rightarrow> (action list \<times> error option) outcome \<times> (action list \<times> error option) outcome" where
  "twoParsers pf st dslCode =
     (case ParseDSL pf (SetState NewParser st) dslCode of (r1, p1') \<Rightarrow>
        (case ParseDSL pf (SetState NewParser (state p1')) dslCode of (r2, p2') \<Rightarrow> (r1, r2)))"

text \<open>The same input parsed twice on one parser.\<close>

definition sameParserTwice :: "parse_float \<Rightarrow> gomap option \<Rightarrow> string
    \<Rightarrow> (action list \<times> error option) outcome \<times> (action list \<times> error option) outcome" where
  "sameParserTwice pf st dslCode =
     (case ParseDSL pf (SetState NewParser st) dslCode of (r1, p1') \<Rightarrow>
        (case ParseDSL pf p1' dslCode of (r2, p2') \<Rightarrow> (r1, r2)))"

subsection \<open>Successive creation calls and concrete inputs\<close>

text \<open>The indices that successive calls of \<open>parseTrackCall\<close> on one parser assign.\<close>

fun createTracks :: "Parser \<Rightarrow> string list \<Rightarrow> int list outcome \<times> Parser" where
  "createTracks p [] = (Return [], p)"
| "createTracks p (call # calls) =
     (case parseTrackCall p call of
        (Panic, p') \<Rightarrow> (Panic, p')
      | (Return (trackAction, trackIndex, err), p') \<Rightarrow>
          (case createTracks p' calls of
             (Panic, p'') \<Rightarrow> (Panic, p'')
           | (Return indices, p'') \<Rightarrow> (Return (trackIndex # indices), p'')))"

text \<open>A stand-in for \<open>strconv.ParseFloat\<close> at concrete inputs: it agrees with the library
  on the four literals it knows and rejects every other text.\<close>

definition sampleFloat :: parse_float where
  "sampleFloat s =
     (if s = ''1.5'' then Some (Finite (3 / 2))
      else if s = ''2.0'' then Some (Finite 2)
      else if s = ''-3.0'' then Some (Finite (- 3))
      else if s = ''0.5'' then Some (Finite (1 / 2))
      else None)"

text \<open>A snapshot of two tracks, the second of them selected, and a parser holding it.\<close>

definition twoTrackSnapshot :: gomap where
  "twoTrackSnapshot =
     [(''state'', IMap [(''tracks'', ISlice
        [IMap [(''name'', IStr ''Drums''), (''selected'', IBool False)],
         IMap [(''name'', IStr ''Bass''), (''selected'', IBool True)]])])]"

definition selectedParser :: Parser where
  "selectedParser = SetState NewParser (Some twoTrackSnapshot)"

section \<open>The test suite of the repository\<close>

text \<open>The cases of \<open>TestDSLParser_ParseDSL\<close>, \<open>TestDSLParser_splitMethodChains\<close> and
  \<open>TestDSLParser_extractParams\<close>, evaluated on the model: it returns what the tests expect
  of the parser.\<close>

lemma test_simple_track_creation:
  "fst (ParseDSL sampleFloat NewParser ''track(instrument=\"Serum\")'') =
     Return ([[(''action'', IStr ''create_track''), (''instrument'', IStr ''Serum''),
               (''index'', IInt 0)]], None)"
  by code_simp

lemma test_track_with_name:
  "fst (ParseDSL sampleFloat NewParser ''track(instrument=\"Serum\", name=\"Bass\")'') =
     Return ([[(''action'', IStr ''create_track''), (''instrument'', IStr ''Serum''),
               (''name'', IStr ''Bass''), (''index'', IInt 0)]], None)"
  by code_simp

lemma test_track_with_index:
  "fst (ParseDSL sampleFloat NewParser ''track(instrument=\"Serum\", index=2)'') =
     Return ([[(''action'', IStr ''create_track''), (''instrument'', IStr ''Serum''),
               (''index'', IInt 2)]], None)"
  by code_simp

lemma test_track_with_clip_chain:
  "fst (ParseDSL sampleFloat NewParser ''track(instrument=\"Serum\").newClip(bar=3, length_bars=4)'') =
     Return ([[(''action'', IStr ''create_track''), (''instrument'', IStr ''Serum''),
               (''index'', IInt 0)],
              [(''action'', IStr ''create_clip_at_bar''), (''track'', IInt 0),
               (''bar'', IInt 3), (''length_bars'', IInt 4)]], None)"
  by code_simp

lemma test_track_with_time_based_clip:
  "fst (ParseDSL sampleFloat NewParser ''track(instrument=\"Serum\").newClip(start=1.5, length=2.0)'') =
     Return ([[(''action'', IStr ''create_track''), (''instrument'', IStr ''Serum''),
               (''index'', IInt 0)],
              [(''action'', IStr ''create_clip''), (''track'', IInt 0),
               (''position'', IFloat (Finite (3 / 2))), (''length'', IFloat (Finite 2))]], None)"
  by code_simp

lemma test_track_with_clip_and_volume:
  "fst (ParseDSL sampleFloat NewParser
          ''track(instrument=\"Serum\").newClip(bar=3, length_bars=4).setVolume(volume_db=-3.0)'') =
     Return ([[(''action'', IStr ''create_track''), (''instrument'', IStr ''Serum''),
               (''index'', IInt 0)],
              [(''action'', IStr ''create_clip_at_bar''), (''track'', IInt 0),
               (''bar'', IInt 3), (''length_bars'', IInt 4)],
              [(''action'', IStr ''set_track_volume''), (''track'', IInt 0),
               (''volume_db'', IFloat (Finite (- 3)))]], None)"
  by code_simp

lemma test_track_with_pan:
  "fst (ParseDSL sampleFloat NewParser ''track(instrument=\"Serum\").setPan(pan=0.5)'') =
     Return ([[(''action'', IStr ''create_track''), (''instrument'', IStr ''Serum''),
               (''index'', IInt 0)],
              [(''action'', IStr ''set_track_pan''), (''track'', IInt 0),
               (''pan'', IFloat (Finite (1 / 2)))]], None)"
  by code_simp

lemma test_track_with_mute:
  "fst (ParseDSL sampleFloat NewParser ''track(instrument=\"Serum\").setMute(mute=true)'') =
     Return ([[(''action'', IStr ''create_track''), (''instrument'', IStr ''Serum''),
               (''index'', IInt 0)],
              [(''action'', IStr ''set_track_mute''), (''track'', IInt 0),
               (''mute'', IBool True)]], None)"
  by code_simp

lemma test_track_with_solo:
  "fst (ParseDSL sampleFloat NewParser ''track(instrument=\"Serum\").setSolo(solo=false)'') =
     Return ([[(''action'', IStr ''create_track''), (''instrument'', IStr ''Serum''),
               (''index'', IInt 0)],
              [(''action'', IStr ''set_track_solo''), (''track'', IInt 0),
               (''solo'', IBool False)]], None)"
  by code_simp

lemma test_track_with_name_setter:
  "fst (ParseDSL sampleFloat NewParser ''track(instrument=\"Serum\").setName(name=\"My Track\")'') =
     Return ([[(''action'', IStr ''create_track''), (''instrument'', IStr ''Serum''),
               (''index'', IInt 0)],
              [(''action'', IStr ''set_track_name''), (''track'', IInt 0),
               (''name'', IStr ''My Track'')]], None)"
  by code_simp

lemma test_track_with_FX:
  "fst (ParseDSL sampleFloat NewParser ''track(instrument=\"Serum\").addFX(fxname=\"ReaEQ\")'') =
     Return ([[(''action'', IStr ''create_track''), (''instrument'', IStr ''Serum''),
               (''index'', IInt 0)],
              [(''action'', IStr ''add_track_fx''), (''track'', IInt 0),
               (''fxname'', IStr ''ReaEQ'')]], None)"
  by code_simp

lemma test_multiple_tracks:
  "fst (ParseDSL sampleFloat NewParser
          ''track(instrument=\"Serum\").newClip(bar=1, length_bars=4) track(instrument=\"Piano\").newClip(bar=2, length_bars=4)'') =
     Return ([[(''action'', IStr ''create_track''), (''instrument'', IStr ''Serum''),
               (''index'', IInt 0)],
              [(''action'', IStr ''create_clip_at_bar''), (''track'', IInt 0),
               (''bar'', IInt 1), (''length_bars'', IInt 4)],
              [(''action'', IStr ''create_track''), (''instrument'', IStr ''Piano''),
               (''index'', IInt 1)],
              [(''action'', IStr ''create_clip_at_bar''), (''track'', IInt 1),
               (''bar'', IInt 2), (''length_bars'', IInt 4)]], None)"
  by code_simp

lemma test_clip_with_default_length:
  "fst (ParseDSL sampleFloat NewParser ''track(instrument=\"Serum\").newClip(bar=3)'') =
     Return ([[(''action'', IStr ''create_track''), (''instrument'', IStr ''Serum''),
               (''index'', IInt 0)],
              [(''action'', IStr ''create_clip_at_bar''), (''track'', IInt 0),
               (''bar'', IInt 3), (''length_bars'', IInt 4)]], None)"
  by code_simp

lemma test_empty_DSL:
  "fst (ParseDSL sampleFloat NewParser []) = Return ([], Some EmptyDSLCode)"
  by code_simp

lemma test_invalid_clip_without_track:
  "fst (ParseDSL sampleFloat NewParser ''.newClip(bar=3)'') =
     Return ([], Some (FailedToParse OpClip (NoTrackContext OpClip)))"
  by code_simp

lemma test_clip_without_bar_or_start:
  "fst (ParseDSL sampleFloat NewParser ''track(instrument=\"Serum\").newClip(length_bars=4)'') =
     Return ([], Some (FailedToParse OpClip (MustSpecify OpClip)))"
  by code_simp

lemma test_split_three_methods:
  "splitMethodChains ''track(instrument=\"Serum\").newClip(bar=3).setVolume(volume_db=-3.0)'' =
     [''track(instrument=\"Serum\")'', ''.newClip(bar=3)'', ''.setVolume(volume_db=-3.0)'']"
  by code_simp

lemma test_split_nested_strings:
  "splitMethodChains ''track(instrument=\"VSTi: Serum (Xfer Records)\").newClip(bar=3)'' =
     [''track(instrument=\"VSTi: Serum (Xfer Records)\")'', ''.newClip(bar=3)'']"
  by code_simp

lemma test_extract_multiple_params:
  "extractParams ''track(instrument=\"Serum\", name=\"Bass\", index=2)'' =
     [(''instrument'', ''Serum''), (''name'', ''Bass''), (''index'', ''2'')]"
  by code_simp

lemma test_extract_params_with_spaces:
  "map fst (extractParams ''track( instrument = \"Serum\" , name = \"Bass\" )'') =
     [''instrument'', ''name'']"
  by code_simp

lemma test_extract_empty_params: "extractParams ''track()'' = []"
  by code_simp

section \<open>Auxiliary facts\<close>

lemma wrap64_id: "- (2 ^ 63) \<le> x \<Longrightarrow> x < 2 ^ 63 \<Longrightarrow> wrap64 x = x"
  by (simp add: wrap64_def)

lemma Atoi_range: "Atoi s = Some k \<Longrightarrow> - (2 ^ 63) \<le> k \<and> k \<le> 2 ^ 63 - 1"
  by (auto simp: Atoi_def Let_def split: if_splits)

lemma keyword_Nil: "keyword [] = None"
  by (simp add: keyword_def HasPrefix_def)

lemma keyword_None_iff:
  "keyword part = None \<longleftrightarrow>
     \<not> HasPrefix part ''track('' \<and> \<not> HasPrefix part ''.newClip('' \<and> \<not> HasPrefix part ''.addMidi(''
   \<and> \<not> HasPrefix part ''.addFX('' \<and> \<not> HasPrefix part ''.addInstrument(''
   \<and> \<not> HasPrefix part ''.setVolume('' \<and> \<not> HasPrefix part ''.setPan(''
   \<and> \<not> HasPrefix part ''.setMute('' \<and> \<not> HasPrefix part ''.setSolo(''
   \<and> \<not> HasPrefix part ''.setName(''"
  by (simp add: keyword_def)

lemma splitMethodChains_Nil: "splitMethodChains [] = []"
  by (simp add: splitMethodChains_def runes.simps)

subsection \<open>The snapshot scan\<close>

lemma firstSelected_none: "\<forall>t\<in>set tracks. \<not> flagged t \<Longrightarrow> firstSelected tracks i = -1"
  by (induction tracks arbitrary: i) auto

lemma firstSelected_first:
  assumes "\<exists>t\<in>set tracks. flagged t"
  shows "\<exists>n<length tracks. flagged (tracks ! n) \<and> (\<forall>j<n. \<not> flagged (tracks ! j))
           \<and> firstSelected tracks i = i + int n"
  using assms
proof (induction tracks arbitrary: i)
  case Nil
  then show ?case by simp
next
  case (Cons t ts)
  show ?case
  proof (cases "flagged t")
    case True
    then have "0 < length (t # ts) \<and> flagged ((t # ts) ! 0) \<and> (\<forall>j<0. \<not> flagged ((t # ts) ! j))
        \<and> firstSelected (t # ts) i = i + int 0"
      by simp
    then show ?thesis by blast
  next
    case False
    with Cons.prems have "\<exists>t\<in>set ts. flagged t" by simp
    then obtain n where n: "n < length ts" "flagged (ts ! n)" "\<forall>j<n. \<not> flagged (ts ! j)"
      "firstSelected ts (i + 1) = i + 1 + int n"
      using Cons.IH [of "i + 1"] by blast
    have "\<forall>j<Suc n. \<not> flagged ((t # ts) ! j)"
    proof (intro allI impI)
      fix j assume "j < Suc n"
      then show "\<not> flagged ((t # ts) ! j)"
        using False n(3) by (cases j) auto
    qed
    with n False have "Suc n < length (t # ts) \<and> flagged ((t # ts) ! Suc n)
        \<and> (\<forall>j<Suc n. \<not> flagged ((t # ts) ! j))
        \<and> firstSelected (t # ts) i = i + int (Suc n)"
      by simp
    then show ?thesis by blast
  qed
qed

subsection \<open>The builders\<close>

lemma parseTrackCall_auto:
  assumes "map_of (extractParams call) ''index'' = None"
  shows "\<exists>a. parseTrackCall p call =
           (Return (a, trackCounter p, None), p\<lparr>trackCounter := wrap64 (trackCounter p + 1)\<rparr>)
         \<and> map_of a ''index'' = Some (IInt (trackCounter p))"
  using assms by (simp add: parseTrackCall_def Let_def update_conv')

lemma parseTrackCall_explicit:
  assumes "map_of (extractParams call) ''index'' = Some s" and "Atoi s = Some k"
  shows "\<exists>a. parseTrackCall p call = (Return (a, k, None), p\<lparr>trackCounter := wrap64 (k + 1)\<rparr>)
         \<and> map_of a ''index'' = Some (IInt k)"
  using assms by (simp add: parseTrackCall_def Let_def update_conv')

lemma createTracks_auto:
  assumes "\<forall>c\<in>set calls. map_of (extractParams c) ''index'' = None"
    and "0 \<le> trackCounter p" and "trackCounter p + int (length calls) < 2 ^ 63"
  shows "fst (createTracks p calls) = Return (map (\<lambda>i. trackCounter p + int i) [0..<length calls])"
  using assms
proof (induction calls arbitrary: p)
  case Nil
  then show ?case by simp
next
  case (Cons call calls)
  let ?p' = "p\<lparr>trackCounter := wrap64 (trackCounter p + 1)\<rparr>"
  from Cons.prems obtain a where
    step: "parseTrackCall p call = (Return (a, trackCounter p, None), ?p')"
    using parseTrackCall_auto [of call p] by auto
  from Cons.prems have w: "wrap64 (trackCounter p + 1) = trackCounter p + 1"
    by (intro wrap64_id) auto
  then have c': "trackCounter ?p' = trackCounter p + 1" by simp
  have "fst (createTracks ?p' calls)
      = Return (map (\<lambda>i. trackCounter ?p' + int i) [0..<length calls])"
    using Cons.prems c' by (intro Cons.IH) auto
  then have tl: "fst (createTracks ?p' calls)
      = Return (map (\<lambda>i. trackCounter p + 1 + int i) [0..<length calls])"
    using c' by simp
  have "map (\<lambda>i. trackCounter p + int i) [0..<length (call # calls)]
      = trackCounter p # map (\<lambda>i. trackCounter p + 1 + int i) [0..<length calls]"
    by (simp add: upt_rec [of 0] map_Suc_upt [symmetric] del: upt_Suc)
  with step tl show ?case
    by (cases "createTracks ?p' calls") (auto split: outcome.splits)
qed

lemma parseClipCall_no_selected:
  "t < 0 \<Longrightarrow> getSelectedTrackIndex p < 0 \<Longrightarrow> parseClipCall pf p call t = Inl (NoTrackContext OpClip)"
  by (simp add: parseClipCall_def)

lemma parseClipCall_resolved:
  "0 \<le> t \<Longrightarrow> parseClipCall pf p call t \<noteq> Inl (NoTrackContext OpClip)"
  by (simp add: parseClipCall_def Let_def split: option.splits)

lemma parseClipCall_missing:
  assumes "0 \<le> t" and "map_of (extractParams call) ''bar'' = None"
    and "map_of (extractParams call) ''start'' = None"
    and "map_of (extractParams call) ''position'' = None"
  shows "parseClipCall pf p call t = Inl (MustSpecify OpClip)"
  using assms by (simp add: parseClipCall_def Let_def)

lemma params_bar3: "extractParams ''.newClip(bar=3)'' = [(''bar'', ''3'')]"
  by code_simp

lemma params_start_length:
  "extractParams ''.newClip(start=1.5, length=2.0)'' = [(''start'', ''1.5''), (''length'', ''2.0'')]"
  by code_simp

lemma params_length_bars: "extractParams ''.newClip(length_bars=4)'' = [(''length_bars'', ''4'')]"
  by code_simp

lemma Atoi_3: "Atoi ''3'' = Some 3"
  by code_simp

subsection \<open>One iteration of the loop\<close>

lemma segment_unrecognised: "keyword part = None \<Longrightarrow> segment pf part acts cur p = Next acts cur p"
  by (simp add: segment_def)

lemma parseLoop_skip:
  "keyword (TrimSpace part) = None \<Longrightarrow>
     parseLoop pf (part # rest) acts cur p = parseLoop pf rest acts cur p"
  by (simp add: Let_def segment_unrecognised)

lemma segment_no_context:
  assumes "cur < 0" and "keyword part = Some op" and "op \<noteq> OpTrack" and "op \<noteq> OpClip"
  shows "segment pf part acts cur p = Exit (Return ([], Some (FailedToParse op (NoTrackContext op)))) p"
  using assms
  by (cases op)
     (simp_all add: segment_def chained_def parseMidiCall_def parseFXCall_def parseVolumeCall_def
        parsePanCall_def parseMuteCall_def parseSoloCall_def parseNameCall_def)

lemma segment_clip_fallback:
  assumes "cur < 0" and "keyword part = Some OpClip"
  shows "segment pf part acts cur p =
           chained OpClip (parseClipCall pf p part (getSelectedTrackIndex p)) acts cur p"
  using assms by (simp add: segment_def)

lemma segment_selected:
  assumes "keyword part = Some OpTrack"
    and "map_of (extractParams part) ''id'' = None"
    and "map_of (extractParams part) ''selected'' = Some sel"
    and "sel = ''true'' \<or> sel = ''True''"
  shows "segment pf part acts cur p =
           (if 0 \<le> getSelectedTrackIndex p then Next acts (getSelectedTrackIndex p) p
            else Exit (Return ([], Some NoSelectedTrackFound)) p)"
  using assms by (auto simp: segment_def trackReference_def Let_def)

lemma segment_Exit: "segment pf part acts cur p = Exit (Return (a, e)) p' \<Longrightarrow> a = [] \<and> e \<noteq> None"
  by (auto simp: segment_def chained_def Let_def
      split: option.splits opkind.splits reference.splits prod.splits outcome.splits sum.splits)

lemma parseLoop_error_nil:
  "fst (parseLoop pf parts acts cur p) = Return (a, Some e) \<Longrightarrow> a = []"
proof (induction parts arbitrary: acts cur p)
  case Nil
  then show ?case by (simp split: if_splits)
next
  case (Cons part parts)
  show ?case
  proof (cases "TrimSpace part = []")
    case True
    with Cons show ?thesis by simp
  next
    case False
    show ?thesis
    proof (cases "segment pf (TrimSpace part) acts cur p")
      case (Next acts' cur' p')
      with Cons False show ?thesis by simp
    next
      case (Exit r p')
      with Cons.prems False have "r = Return (a, Some e)" by simp
      with Exit segment_Exit show ?thesis by blast
    qed
  qed
qed

subsection \<open>The snapshot is only read\<close>

lemma parseTrackCall_state: "state (snd (parseTrackCall p call)) = state p"
  by (simp add: parseTrackCall_def Let_def split: option.splits iface.splits)

lemma segment_state:
  "segment pf part acts cur p = Next acts' cur' p' \<Longrightarrow> state p' = state p"
  "segment pf part acts cur p = Exit r p' \<Longrightarrow> state p' = state p"
  using parseTrackCall_state [of p part]
  by (auto simp: segment_def chained_def Let_def
      split: option.splits opkind.splits reference.splits prod.splits outcome.splits sum.splits)

lemma parseLoop_state: "state (snd (parseLoop pf parts acts cur p)) = state p"
proof (induction parts arbitrary: acts cur p)
  case Nil
  then show ?case by simp
next
  case (Cons part parts)
  show ?case
  proof (cases "TrimSpace part = []")
    case True
    with Cons show ?thesis by simp
  next
    case False
    show ?thesis
    proof (cases "segment pf (TrimSpace part) acts cur p")
      case (Next acts' cur' p')
      with Cons.IH [of acts' cur' p'] False segment_state(1) [OF Next] show ?thesis by simp
    next
      case (Exit r p')
      with False segment_state(2) [OF Exit] show ?thesis by simp
    qed
  qed
qed

lemma ParseDSL_state: "state (snd (ParseDSL pf p dslCode)) = state p"
  by (simp add: ParseDSL_def Let_def parseLoop_state)

section \<open>The claims\<close>

subsection \<open>Chained calls without a current track\<close>

text \<open>
  With a track selected in the snapshot, \<open>track(selected=true).setVolume(...)\<close> sets the
  volume of that track, while a bare \<open>.setVolume(...)\<close> is refused for want of a track
  context: the volume builder does not consult the snapshot.
\<close>

theorem setVolume_ignores_selected_track:
  "getSelectedTrackIndex selectedParser = 1
   \<and> ParseDSL sampleFloat selectedParser ''track(selected=true).setVolume(volume_db=-3.0)'' =
      (Return ([[(''action'', IStr ''set_track_volume''), (''track'', IInt 1),
                 (''volume_db'', IFloat (Finite (- 3)))]], None), selectedParser)
   \<and> ParseDSL sampleFloat selectedParser ''.setVolume(volume_db=-3.0)'' =
      (Return ([], Some (FailedToParse OpVolume (NoTrackContext OpVolume))), selectedParser)"
  by code_simp

text \<open>
  Claim C1, as amended. A chained call reached while the current track index is negative
  (``none''): \<open>.newClip\<close> falls back to the first selected track of the snapshot and is
  built on it, failing with the no-track-context error exactly when no track is selected;
  every other chained call (\<open>.addMidi\<close>, \<open>.addFX\<close>, \<open>.addInstrument\<close>, \<open>.setVolume\<close>,
  \<open>.setPan\<close>, \<open>.setMute\<close>, \<open>.setSolo\<close>, \<open>.setName\<close>) fails with the no-track-context error
  whatever the snapshot holds.
\<close>

theorem chained_call_without_track:
  assumes "cur < 0" and "keyword part = Some op" and "op \<noteq> OpTrack"
  shows "segment pf part acts cur p =
           (if op = OpClip \<and> 0 \<le> getSelectedTrackIndex p
            then chained OpClip (parseClipCall pf p part (getSelectedTrackIndex p)) acts cur p
            else Exit (Return ([], Some (FailedToParse op (NoTrackContext op)))) p)
       \<and> (0 \<le> getSelectedTrackIndex p \<longrightarrow>
            parseClipCall pf p part (getSelectedTrackIndex p) \<noteq> Inl (NoTrackContext OpClip))"
proof (cases "op = OpClip")
  case True
  with assms show ?thesis
    by (auto simp: segment_clip_fallback parseClipCall_no_selected parseClipCall_resolved chained_def)
next
  case False
  with assms show ?thesis
    by (simp add: segment_no_context parseClipCall_resolved)
qed

theorem chained_call_without_track_witness:
  "segment sampleFloat ''.setVolume(volume_db=-3.0)'' [] (-1) selectedParser
     = Exit (Return ([], Some (FailedToParse OpVolume (NoTrackContext OpVolume)))) selectedParser
   \<and> segment sampleFloat ''.newClip(bar=3)'' [] (-1) NewParser
     = Exit (Return ([], Some (FailedToParse OpClip (NoTrackContext OpClip)))) NewParser"
proof -
  have k1: "keyword ''.setVolume(volume_db=-3.0)'' = Some OpVolume" by code_simp
  have k2: "keyword ''.newClip(bar=3)'' = Some OpClip" by code_simp
  have g: "getSelectedTrackIndex NewParser = -1" by code_simp
  have c: "(-1::int) < 0" by simp
  show ?thesis
    using chained_call_without_track [OF c k1, of sampleFloat "[]" selectedParser]
      chained_call_without_track [OF c k2, of sampleFloat "[]" NewParser] g
    by simp
qed

subsection \<open>Malformed numbers\<close>

text \<open>
  Claim C2. Malformed numeric text is to count as an absent field and must never abort
  the parse. \<open>setVolume(volume_db=abc)\<close> behaves so: the record is emitted without the
  field. \<open>track(index=abc)\<close> does not: \<open>parseTrackCall\<close> leaves \<open>index\<close> unset and then
  asserts it to be an \<open>int\<close>, which panics.
\<close>

theorem track_index_malformed_panics:
  "ParseDSL pf NewParser ''track(index=abc)'' = (Panic, NewParser)
   \<and> fst (ParseDSL sampleFloat NewParser ''track().setVolume(volume_db=abc)'') =
       Return ([[(''action'', IStr ''create_track''), (''index'', IInt 0)],
                [(''action'', IStr ''set_track_volume''), (''track'', IInt 0)]], None)"
  by code_simp

subsection \<open>MIDI notes\<close>

text \<open>
  Claim C3. An \<open>addMidi\<close> call is to carry its \<open>notes\<close> into the record and to fail when
  \<open>notes\<close> is missing. The builder returns the same placeholder with an empty \<open>notes\<close>
  slice in both cases.
\<close>

theorem addMidi_returns_placeholder:
  "fst (ParseDSL pf NewParser
          ''track().addMidi(notes=[{pitch=60, velocity=100, start=0, duration=1}])'')
     = Return ([[(''action'', IStr ''create_track''), (''index'', IInt 0)],
                [(''action'', IStr ''add_midi''), (''track'', IInt 0), (''notes'', ISlice [])]],
               None)
   \<and> fst (ParseDSL pf NewParser ''track().addMidi()'')
     = Return ([[(''action'', IStr ''create_track''), (''index'', IInt 0)],
                [(''action'', IStr ''add_midi''), (''track'', IInt 0), (''notes'', ISlice [])]],
               None)"
  by code_simp

subsection \<open>A leading call that is not a track call\<close>

text \<open>
  With a track selected in the snapshot, a program that starts with \<open>.newClip(bar=3)\<close>
  parses: the clip is created on the selected track.
\<close>

theorem leading_newClip_uses_selected_track:
  "ParseDSL sampleFloat selectedParser ''.newClip(bar=3)'' =
     (Return ([[(''action'', IStr ''create_clip_at_bar''), (''track'', IInt 1),
                (''bar'', IInt 3), (''length_bars'', IInt 4)]], None), selectedParser)"
  by code_simp

text \<open>
  Claim C4, as amended. When the first call segment of the input is one of the chained
  operations, the parse fails with the no-track-context error of that operation: for
  \<open>.newClip\<close> when the snapshot has no selected track, for every other chained operation
  regardless of the snapshot.
\<close>

theorem leading_chained_call_fails:
  assumes "splitMethodChains (TrimSpace dslCode) = part # rest"
    and "keyword (TrimSpace part) = Some op"
    and "op \<noteq> OpTrack"
    and "op = OpClip \<longrightarrow> getSelectedTrackIndex p < 0"
  shows "ParseDSL pf p dslCode = (Return ([], Some (FailedToParse op (NoTrackContext op))), p)"
proof -
  from assms(1) have ne: "TrimSpace dslCode \<noteq> []"
    using splitMethodChains_Nil by auto
  from assms(2) have pne: "TrimSpace part \<noteq> []"
    using keyword_Nil by auto
  have seg: "segment pf (TrimSpace part) [] (-1) p
      = Exit (Return ([], Some (FailedToParse op (NoTrackContext op)))) p"
  proof (cases "op = OpClip")
    case True
    with assms show ?thesis
      by (simp add: segment_clip_fallback parseClipCall_no_selected chained_def)
  next
    case False
    with assms show ?thesis by (simp add: segment_no_context)
  qed
  show ?thesis
    using ne pne seg assms(1) by (simp add: ParseDSL_def Let_def)
qed

theorem leading_chained_call_fails_witness:
  "ParseDSL sampleFloat NewParser ''.newClip(bar=3)''
     = (Return ([], Some (FailedToParse OpClip (NoTrackContext OpClip))), NewParser)"
proof -
  have s: "splitMethodChains (TrimSpace ''.newClip(bar=3)'') = [''.newClip(bar=3)'']" by code_simp
  have k: "keyword (TrimSpace ''.newClip(bar=3)'') = Some OpClip" by code_simp
  have g: "OpClip = OpClip \<longrightarrow> getSelectedTrackIndex NewParser < 0" by code_simp
  show ?thesis
    using leading_chained_call_fails [OF s k _ g] by simp
qed

subsection \<open>Track indices\<close>

text \<open>
  The largest \<open>int\<close> is a well-formed explicit index. The counter is then set with
  \<open>index + 1\<close>, which wraps around, and the next track without an index gets the
  smallest \<open>int\<close>.
\<close>

theorem index_counter_wraps:
  "Atoi ''9223372036854775807'' = Some 9223372036854775807
   \<and> trackCounter (snd (parseTrackCall NewParser ''track(index=9223372036854775807)''))
       = - 9223372036854775808
   \<and> fst (ParseDSL sampleFloat NewParser ''track(index=9223372036854775807) track()'')
       = Return ([[(''action'', IStr ''create_track''), (''index'', IInt 9223372036854775807)],
                  [(''action'', IStr ''create_track''), (''index'', IInt (- 9223372036854775808))]],
                 None)"
  by code_simp

text \<open>
  Claim C5, as amended. On a fresh parser, successive creation calls without an \<open>index\<close>
  parameter (fewer than \<open>2^63\<close> of them) are assigned \<open>0, 1, 2, ...\<close>, a strictly increasing
  sequence; a creation call without \<open>index\<close> is assigned the counter of the parser and
  advances it by one (below the largest \<open>int\<close>); and a
  creation call with \<open>index=k\<close>, \<open>k\<close> an integer that \<open>Atoi\<close> accepts, is assigned \<open>k\<close> and
  sets the counter to \<open>k + 1\<close> when \<open>k < 2^63 - 1\<close> (to \<open>-2^63\<close> at \<open>k = 2^63 - 1\<close>).
\<close>

theorem track_indices_assigned:
  "((\<forall>c\<in>set calls. map_of (extractParams c) ''index'' = None) \<and> int (length calls) < 2 ^ 63 \<longrightarrow>
      fst (createTracks NewParser calls) = Return (map int [0..<length calls])
      \<and> sorted_wrt (<) (map int [0..<length calls]))
   \<and> (map_of (extractParams call) ''index'' = None \<longrightarrow>
        (\<exists>a. fst (parseTrackCall p call) = Return (a, trackCounter p, None)
             \<and> map_of a ''index'' = Some (IInt (trackCounter p)))
        \<and> (- (2 ^ 63) \<le> trackCounter p \<and> trackCounter p < 2 ^ 63 - 1 \<longrightarrow>
             trackCounter (snd (parseTrackCall p call)) = trackCounter p + 1))
   \<and> (map_of (extractParams call) ''index'' = Some s \<and> Atoi s = Some k \<longrightarrow>
        (\<exists>a. fst (parseTrackCall p call) = Return (a, k, None) \<and> map_of a ''index'' = Some (IInt k))
        \<and> trackCounter (snd (parseTrackCall p call)) = (if k = 2 ^ 63 - 1 then - (2 ^ 63) else k + 1))"
proof (intro conjI impI)
  assume h: "(\<forall>c\<in>set calls. map_of (extractParams c) ''index'' = None) \<and> int (length calls) < 2 ^ 63"
  then show "fst (createTracks NewParser calls) = Return (map int [0..<length calls])"
    using createTracks_auto [of calls NewParser] by (simp add: NewParser_def)
  show "sorted_wrt (<) (map int [0..<length calls])"
    by (simp add: sorted_wrt_map sorted_wrt_upt)
next
  assume "map_of (extractParams call) ''index'' = None"
  then show "\<exists>a. fst (parseTrackCall p call) = Return (a, trackCounter p, None)
             \<and> map_of a ''index'' = Some (IInt (trackCounter p))"
    using parseTrackCall_auto [of call p] by auto
next
  assume n: "map_of (extractParams call) ''index'' = None"
    and r: "- (2 ^ 63) \<le> trackCounter p \<and> trackCounter p < 2 ^ 63 - 1"
  from r have "wrap64 (trackCounter p + 1) = trackCounter p + 1"
    by (intro wrap64_id) auto
  with n show "trackCounter (snd (parseTrackCall p call)) = trackCounter p + 1"
    using parseTrackCall_auto [of call p] by auto
next
  assume h: "map_of (extractParams call) ''index'' = Some s \<and> Atoi s = Some k"
  then obtain a where a:
    "parseTrackCall p call = (Return (a, k, None), p\<lparr>trackCounter := wrap64 (k + 1)\<rparr>)"
    "map_of a ''index'' = Some (IInt k)"
    using parseTrackCall_explicit [of call s k p] by auto
  then show "\<exists>a. fst (parseTrackCall p call) = Return (a, k, None) \<and> map_of a ''index'' = Some (IInt k)"
    by auto
  from h have r: "- (2 ^ 63) \<le> k \<and> k \<le> 2 ^ 63 - 1" using Atoi_range by blast
  show "trackCounter (snd (parseTrackCall p call)) = (if k = 2 ^ 63 - 1 then - (2 ^ 63) else k + 1)"
  proof (cases "k = 2 ^ 63 - 1")
    case True
    with a show ?thesis by (simp add: wrap64_def)
  next
    case False
    with r have "wrap64 (k + 1) = k + 1" by (intro wrap64_id) auto
    with a False show ?thesis by simp
  qed
qed

theorem track_indices_assigned_witness:
  "fst (createTracks NewParser [''track()'', ''track(name=Bass)'', ''track()'']) = Return [0, 1, 2]
   \<and> fst (parseTrackCall NewParser ''track(index=5)'')
       = Return ([(''action'', IStr ''create_track''), (''index'', IInt 5)], 5, None)
   \<and> trackCounter (snd (parseTrackCall NewParser ''track(index=5)'')) = 6"
proof -
  have e1: "\<forall>c\<in>set [''track()'', ''track(name=Bass)'', ''track()''].
      map_of (extractParams c) ''index'' = None"
    by code_simp
  have l: "int (length [''track()'', ''track(name=Bass)'', ''track()'']) < 2 ^ 63" by simp
  have e2: "map_of (extractParams ''track(index=5)'') ''index'' = Some ''5''" by code_simp
  have e3: "Atoi ''5'' = Some 5" by code_simp
  have m: "map int [0..<length [''track()'', ''track(name=Bass)'', ''track()'']] = [0, 1, 2]"
    by code_simp
  have v: "fst (parseTrackCall NewParser ''track(index=5)'')
       = Return ([(''action'', IStr ''create_track''), (''index'', IInt 5)], 5, None)"
    by code_simp
  from track_indices_assigned
    [of "[''track()'', ''track(name=Bass)'', ''track()'']" "''track(index=5)''" NewParser "''5''" 5]
    e1 l e2 e3 m v
  show ?thesis by simp
qed

subsection \<open>New clips\<close>

text \<open>
  Claim C6. With a resolved track index \<open>t\<close>: \<open>newClip(bar=3)\<close> yields the record with
  action \<open>create_clip_at_bar\<close>, bar 3 and the default \<open>length_bars\<close> 4;
  \<open>newClip(start=1.5, length=2.0)\<close> yields the record with action \<open>create_clip\<close>, position
  1.5 and length 2.0 (given that \<open>ParseFloat\<close> reads the two literals as these numbers);
  \<open>newClip(length_bars=4)\<close>, and any call that gives none of \<open>bar\<close>, \<open>start\<close> and
  \<open>position\<close>, fails with the error that the clip call must specify one of them. Each
  record also carries the track index.
\<close>

theorem newClip_records:
  assumes "0 \<le> t"
  shows "parseClipCall pf p ''.newClip(bar=3)'' t =
           Inr [(''action'', IStr ''create_clip_at_bar''), (''track'', IInt t),
                (''bar'', IInt 3), (''length_bars'', IInt 4)]
       \<and> (pf ''1.5'' = Some (Finite (3 / 2)) \<and> pf ''2.0'' = Some (Finite 2) \<longrightarrow>
            parseClipCall pf p ''.newClip(start=1.5, length=2.0)'' t =
              Inr [(''action'', IStr ''create_clip''), (''track'', IInt t),
                   (''position'', IFloat (Finite (3 / 2))), (''length'', IFloat (Finite 2))])
       \<and> parseClipCall pf p ''.newClip(length_bars=4)'' t = Inl (MustSpecify OpClip)
       \<and> (map_of (extractParams call) ''bar'' = None \<and> map_of (extractParams call) ''start'' = None
            \<and> map_of (extractParams call) ''position'' = None \<longrightarrow>
            parseClipCall pf p call t = Inl (MustSpecify OpClip))"
proof (intro conjI impI)
  show "parseClipCall pf p ''.newClip(bar=3)'' t =
           Inr [(''action'', IStr ''create_clip_at_bar''), (''track'', IInt t),
                (''bar'', IInt 3), (''length_bars'', IInt 4)]"
    using assms by (simp add: parseClipCall_def params_bar3 Atoi_3)
next
  assume "pf ''1.5'' = Some (Finite (3 / 2)) \<and> pf ''2.0'' = Some (Finite 2)"
  then show "parseClipCall pf p ''.newClip(start=1.5, length=2.0)'' t =
              Inr [(''action'', IStr ''create_clip''), (''track'', IInt t),
                   (''position'', IFloat (Finite (3 / 2))), (''length'', IFloat (Finite 2))]"
    using assms by (simp add: parseClipCall_def params_start_length)
next
  show "parseClipCall pf p ''.newClip(length_bars=4)'' t = Inl (MustSpecify OpClip)"
    using assms by (simp add: parseClipCall_def params_length_bars)
next
  assume "map_of (extractParams call) ''bar'' = None \<and> map_of (extractParams call) ''start'' = None
            \<and> map_of (extractParams call) ''position'' = None"
  then show "parseClipCall pf p call t = Inl (MustSpecify OpClip)"
    using assms parseClipCall_missing by blast
qed

theorem newClip_records_witness:
  "parseClipCall sampleFloat NewParser ''.newClip(bar=3)'' 0 =
           Inr [(''action'', IStr ''create_clip_at_bar''), (''track'', IInt 0),
                (''bar'', IInt 3), (''length_bars'', IInt 4)]
   \<and> parseClipCall sampleFloat NewParser ''.newClip(start=1.5, length=2.0)'' 0 =
              Inr [(''action'', IStr ''create_clip''), (''track'', IInt 0),
                   (''position'', IFloat (Finite (3 / 2))), (''length'', IFloat (Finite 2))]
   \<and> parseClipCall sampleFloat NewParser ''.newClip(length=2.0)'' 0 = Inl (MustSpecify OpClip)"
proof -
  have t: "(0::int) \<le> 0" by simp
  have f: "sampleFloat ''1.5'' = Some (Finite (3 / 2)) \<and> sampleFloat ''2.0'' = Some (Finite 2)"
    by (simp add: sampleFloat_def)
  have m: "map_of (extractParams ''.newClip(length=2.0)'') ''bar'' = None
     \<and> map_of (extractParams ''.newClip(length=2.0)'') ''start'' = None
     \<and> map_of (extractParams ''.newClip(length=2.0)'') ''position'' = None"
    by code_simp
  from newClip_records [OF t, of sampleFloat NewParser "''.newClip(length=2.0)''"] f m
  show ?thesis by simp
qed

subsection \<open>The selected track\<close>

text \<open>
  Claim C7. When the loop reaches a track call with \<open>selected=true\<close> (or \<open>True\<close>) and no
  \<open>id\<close>: if some entry of the track list of the snapshot is flagged selected, the current
  track becomes the index of the first such entry, no record is emitted and the loop goes
  on with the next part; if no entry is flagged (or the snapshot has no track list), the
  parse returns the error that no selected track was found.
\<close>

theorem track_selected_resolution:
  assumes "keyword (TrimSpace part) = Some OpTrack"
    and "map_of (extractParams (TrimSpace part)) ''id'' = None"
    and "map_of (extractParams (TrimSpace part)) ''selected'' = Some sel"
    and "sel = ''true'' \<or> sel = ''True''"
    and "tracks = (case snapshotTracks p of Some ts \<Rightarrow> ts | None \<Rightarrow> [])"
  shows "((\<exists>t\<in>set tracks. flagged t) \<longrightarrow>
            (\<exists>n<length tracks. flagged (tracks ! n) \<and> (\<forall>j<n. \<not> flagged (tracks ! j))
               \<and> segment pf (TrimSpace part) acts cur p = Next acts (int n) p
               \<and> parseLoop pf (part # rest) acts cur p = parseLoop pf rest acts (int n) p))
       \<and> ((\<forall>t\<in>set tracks. \<not> flagged t) \<longrightarrow>
            parseLoop pf (part # rest) acts cur p = (Return ([], Some NoSelectedTrackFound), p))"
proof -
  have g: "getSelectedTrackIndex p = firstSelected tracks 0"
    using assms(5) by (simp add: getSelectedTrackIndex_def split: option.splits)
  from assms(1) have ne: "TrimSpace part \<noteq> []"
    using keyword_Nil by auto
  note seg = segment_selected [OF assms(1-4), of pf acts cur p]
  show ?thesis
  proof (intro conjI impI)
    assume "\<exists>t\<in>set tracks. flagged t"
    then obtain n where n: "n < length tracks" "flagged (tracks ! n)"
      "\<forall>j<n. \<not> flagged (tracks ! j)" "firstSelected tracks 0 = int n"
      using firstSelected_first [of tracks 0] by auto
    with g seg have s: "segment pf (TrimSpace part) acts cur p = Next acts (int n) p" by simp
    with ne have "parseLoop pf (part # rest) acts cur p = parseLoop pf rest acts (int n) p"
      by simp
    with n s show "\<exists>n<length tracks. flagged (tracks ! n) \<and> (\<forall>j<n. \<not> flagged (tracks ! j))
               \<and> segment pf (TrimSpace part) acts cur p = Next acts (int n) p
               \<and> parseLoop pf (part # rest) acts cur p = parseLoop pf rest acts (int n) p"
      by blast
  next
    assume "\<forall>t\<in>set tracks. \<not> flagged t"
    then have "firstSelected tracks 0 = -1" by (rule firstSelected_none)
    with g seg have "segment pf (TrimSpace part) acts cur p
        = Exit (Return ([], Some NoSelectedTrackFound)) p" by simp
    with ne show "parseLoop pf (part # rest) acts cur p = (Return ([], Some NoSelectedTrackFound), p)"
      by simp
  qed
qed

theorem track_selected_resolution_witness:
  "segment sampleFloat (TrimSpace ''track(selected=true)'') [] (-1) selectedParser
      = Next [] 1 selectedParser
   \<and> parseLoop sampleFloat [''track(selected=true)'', ''.setMute(mute=true)''] [] (-1) NewParser
      = (Return ([], Some NoSelectedTrackFound), NewParser)"
proof -
  have k: "keyword (TrimSpace ''track(selected=true)'') = Some OpTrack" by code_simp
  have i: "map_of (extractParams (TrimSpace ''track(selected=true)'')) ''id'' = None" by code_simp
  have s: "map_of (extractParams (TrimSpace ''track(selected=true)'')) ''selected'' = Some ''true''"
    by code_simp
  have v: "''true'' = ''true'' \<or> ''true'' = ''True''" by simp
  have t1: "[IMap [(''name'', IStr ''Drums''), (''selected'', IBool False)],
             IMap [(''name'', IStr ''Bass''), (''selected'', IBool True)]]
      = (case snapshotTracks selectedParser of Some ts \<Rightarrow> ts | None \<Rightarrow> [])"
    by code_simp
  have t2: "[] = (case snapshotTracks NewParser of Some ts \<Rightarrow> ts | None \<Rightarrow> [])"
    by code_simp
  have f: "\<not> flagged (IMap [(''name'', IStr ''Drums''), (''selected'', IBool False)])
      \<and> flagged (IMap [(''name'', IStr ''Bass''), (''selected'', IBool True)])"
    by code_simp
  have one: "segment sampleFloat (TrimSpace ''track(selected=true)'') [] (-1) selectedParser
      = Next [] 1 selectedParser"
  proof -
    from track_selected_resolution [OF k i s v t1, of sampleFloat "[]" "-1" "[]"] f
    obtain n where n: "n < 2"
      "flagged ([IMap [(''name'', IStr ''Drums''), (''selected'', IBool False)],
                 IMap [(''name'', IStr ''Bass''), (''selected'', IBool True)]] ! n)"
      "segment sampleFloat (TrimSpace ''track(selected=true)'') [] (-1) selectedParser
         = Next [] (int n) selectedParser"
      by auto
    from n(1) have "n = 0 \<or> n = 1" by auto
    with n(2) f have "n = 1" by auto
    with n(3) show ?thesis by simp
  qed
  from track_selected_resolution
    [OF k i s v t2, of sampleFloat "[]" "-1" "[''.setMute(mute=true)'']"]
  have "parseLoop sampleFloat [''track(selected=true)'', ''.setMute(mute=true)''] [] (-1) NewParser
      = (Return ([], Some NoSelectedTrackFound), NewParser)"
    by simp
  with one show ?thesis by simp
qed

subsection \<open>Errors and partial results\<close>

text \<open>
  Claim C8. Whenever \<open>ParseDSL\<close> returns an error, the list of actions it returns with it
  is empty, whatever was emitted before the failing part.
\<close>

theorem error_returns_no_actions:
  "fst (ParseDSL pf p dslCode) = Return (actions, Some err) \<Longrightarrow> actions = []"
  by (auto simp: ParseDSL_def Let_def split: if_splits dest: parseLoop_error_nil)

theorem error_returns_no_actions_witness:
  "fst (ParseDSL sampleFloat NewParser ''track().newClip(length_bars=4)'')
     = Return ([], Some (FailedToParse OpClip (MustSpecify OpClip)))"
proof -
  have h: "fst (ParseDSL sampleFloat NewParser ''track().newClip(length_bars=4)'')
     = Return ([], Some (FailedToParse OpClip (MustSpecify OpClip)))"
    by code_simp
  from error_returns_no_actions [OF h] h show ?thesis by simp
qed

subsection \<open>Independent parsers\<close>

text \<open>
  Claim C9. Two parsers constructed independently and given the same snapshot return the
  same result for the same input: the same actions, the same error or the same panic.
  The second parser reads the shared snapshot after the first parse has run; the results
  agree because a parse keeps its counter in its own parser and only reads the snapshot:
  every parse leaves the \<open>state\<close> of its parser as it found it.
\<close>

theorem independent_parsers_agree:
  "fst (twoParsers pf st dslCode) = snd (twoParsers pf st dslCode)
   \<and> state (snd (ParseDSL pf p dslCode)) = state p"
proof -
  have "state (snd (ParseDSL pf (SetState NewParser st) dslCode)) = st"
    by (simp add: ParseDSL_state SetState_def)
  then have "fst (twoParsers pf st dslCode) = snd (twoParsers pf st dslCode)"
    by (simp add: twoParsers_def case_prod_beta)
  then show ?thesis
    by (simp add: ParseDSL_state)
qed

theorem independent_parsers_agree_witness:
  "fst (twoParsers sampleFloat (Some twoTrackSnapshot) ''track(selected=true).setMute(mute=true) track()'')
     = Return ([[(''action'', IStr ''set_track_mute''), (''track'', IInt 1), (''mute'', IBool True)],
                [(''action'', IStr ''create_track''), (''index'', IInt 0)]], None)
   \<and> snd (twoParsers sampleFloat (Some twoTrackSnapshot) ''track(selected=true).setMute(mute=true) track()'')
     = Return ([[(''action'', IStr ''set_track_mute''), (''track'', IInt 1), (''mute'', IBool True)],
                [(''action'', IStr ''create_track''), (''index'', IInt 0)]], None)"
proof -
  have "fst (ParseDSL sampleFloat (SetState NewParser (Some twoTrackSnapshot))
               ''track(selected=true).setMute(mute=true) track()'')
     = Return ([[(''action'', IStr ''set_track_mute''), (''track'', IInt 1), (''mute'', IBool True)],
                [(''action'', IStr ''create_track''), (''index'', IInt 0)]], None)"
    by code_simp
  then have "fst (twoParsers sampleFloat (Some twoTrackSnapshot)
                    ''track(selected=true).setMute(mute=true) track()'')
     = Return ([[(''action'', IStr ''set_track_mute''), (''track'', IInt 1), (''mute'', IBool True)],
                [(''action'', IStr ''create_track''), (''index'', IInt 0)]], None)"
    by (simp add: twoParsers_def case_prod_beta)
  with independent_parsers_agree
    [of sampleFloat "Some twoTrackSnapshot" "''track(selected=true).setMute(mute=true) track()''"
      NewParser]
  show ?thesis by simp
qed

text \<open>The independence is needed: the same parser, used twice, continues its counter.\<close>

lemma same_parser_twice_differs:
  "sameParserTwice sampleFloat None ''track()'' =
     (Return ([[(''action'', IStr ''create_track''), (''index'', IInt 0)]], None),
      Return ([[(''action'', IStr ''create_track''), (''index'', IInt 1)]], None))"
  by code_simp

subsection \<open>Unrecognised calls\<close>

text \<open>
  Claim C10. A part that starts with none of the recognised keywords (\<open>track(\<close>,
  \<open>.newClip(\<close>, \<open>.addMidi(\<close>, \<open>.addFX(\<close>, \<open>.addInstrument(\<close>, \<open>.setVolume(\<close>, \<open>.setPan(\<close>,
  \<open>.setMute(\<close>, \<open>.setSolo(\<close>, \<open>.setName(\<close>) emits no record and raises no error: the
  actions, the current track and the parser are unchanged and the loop goes on with the
  next part.
\<close>

theorem unrecognised_call_skipped:
  assumes "\<not> HasPrefix (TrimSpace part) ''track(''"
    and "\<not> HasPrefix (TrimSpace part) ''.newClip(''"
    and "\<not> HasPrefix (TrimSpace part) ''.addMidi(''"
    and "\<not> HasPrefix (TrimSpace part) ''.addFX(''"
    and "\<not> HasPrefix (TrimSpace part) ''.addInstrument(''"
    and "\<not> HasPrefix (TrimSpace part) ''.setVolume(''"
    and "\<not> HasPrefix (TrimSpace part) ''.setPan(''"
    and "\<not> HasPrefix (TrimSpace part) ''.setMute(''"
    and "\<not> HasPrefix (TrimSpace part) ''.setSolo(''"
    and "\<not> HasPrefix (TrimSpace part) ''.setName(''"
  shows "segment pf (TrimSpace part) acts cur p = Next acts cur p
       \<and> parseLoop pf (part # rest) acts cur p = parseLoop pf rest acts cur p"
proof -
  from assms have "keyword (TrimSpace part) = None"
    by (simp add: keyword_None_iff)
  then show ?thesis
    using segment_unrecognised parseLoop_skip by blast
qed

theorem unrecognised_call_skipped_witness:
  "segment sampleFloat (TrimSpace '' .foo(x=1)'') [] 0 NewParser = Next [] 0 NewParser
   \<and> parseLoop sampleFloat ['' .foo(x=1)'', ''.setMute(mute=true)''] [] 0 NewParser
     = parseLoop sampleFloat [''.setMute(mute=true)''] [] 0 NewParser"
  by (rule unrecognised_call_skipped) code_simp+

end
